theory Spec2Isabelle
  imports Main "HOL-Library.Word"
begin

section \<open>Strings of the host language\<close>

text \<open>
  A string of the component is a sequence of 16-bit code units. The literals of the
  source are plain ASCII, so they are written as HOL strings and widened by \<open>js\<close>.
\<close>

type_synonym jsstring = "16 word list"

definition js :: "string \<Rightarrow> jsstring" where
  "js s = map (\<lambda>c. of_nat (of_char c)) s"

text \<open>
  \<open>String.prototype.trim\<close> strips white space and line terminators from both ends:
  TAB, LF, VT, FF, CR, SPACE, NBSP, U+1680, U+2000 to U+200A, U+2028, U+2029, U+202F,
  U+205F, U+3000 and U+FEFF.
\<close>

definition isWhiteSpace :: "16 word \<Rightarrow> bool" where
  "isWhiteSpace c \<longleftrightarrow>
     c = 0x09 \<or> c = 0x0A \<or> c = 0x0B \<or> c = 0x0C \<or> c = 0x0D \<or> c = 0x20 \<or> c = 0xA0 \<or>
     c = 0x1680 \<or> (0x2000 \<le> c \<and> c \<le> 0x200A) \<or> c = 0x2028 \<or> c = 0x2029 \<or>
     c = 0x202F \<or> c = 0x205F \<or> c = 0x3000 \<or> c = 0xFEFF"

definition trim :: "jsstring \<Rightarrow> jsstring" where
  "trim s = rev (dropWhile isWhiteSpace (rev (dropWhile isWhiteSpace s)))"

text \<open>A value in a condition: \<open>undefined\<close> and the empty string are falsy.\<close>

fun truthy :: "jsstring option \<Rightarrow> bool" where
  "truthy None = False"
| "truthy (Some s) = (s \<noteq> [])"

section \<open>Data model\<close>

record FormData =
  postTitle :: jsstring
  postContent :: jsstring
  comment :: jsstring

text \<open>\<open>keyof FormData\<close>.\<close>

datatype field_key = PostTitle | PostContent | Comment

text \<open>
  \<open>FormErrors\<close> has one optional message per field. A key that is missing and a key
  that holds \<open>undefined\<close> are both \<open>None\<close>: the component only ever tests an entry
  for truthiness, spreads the object, or counts the keys of a freshly built one.
\<close>

type_synonym FormErrors = "field_key \<Rightarrow> jsstring option"

fun getField :: "FormData \<Rightarrow> field_key \<Rightarrow> jsstring" where
  "getField d PostTitle = postTitle d"
| "getField d PostContent = postContent d"
| "getField d Comment = comment d"

fun setField :: "FormData \<Rightarrow> field_key \<Rightarrow> jsstring \<Rightarrow> FormData" where
  "setField d PostTitle v = d\<lparr>postTitle := v\<rparr>"
| "setField d PostContent v = d\<lparr>postContent := v\<rparr>"
| "setField d Comment v = d\<lparr>comment := v\<rparr>"

text \<open>What \<open>console.log\<close> receives: the label's payload and the ISO timestamp.\<close>

datatype log_entry =
  CreatingPost jsstring jsstring jsstring
| AddingComment jsstring jsstring

text \<open>
  The two arrow functions handed to \<open>setTimeout\<close>. Each closes over the \<open>formData\<close>
  of the render in which the submit handler ran.
\<close>

datatype callback = CreatePostDone FormData | AddCommentDone FormData

record timer =
  callback :: callback
  delay :: nat

text \<open>
  The three \<open>useState\<close> cells, the timers that are scheduled and have not fired, and
  the console output so far.
\<close>

record component =
  formData :: FormData
  errors :: FormErrors
  isSubmitting :: bool
  timers :: "timer list"
  console :: "log_entry list"

definition init :: component where
  "init = \<lparr>formData = \<lparr>postTitle = [], postContent = [], comment = []\<rparr>,
           errors = (\<lambda>_. None), isSubmitting = False, timers = [], console = []\<rparr>"

section \<open>Validation\<close>

fun requiredMessage :: "field_key \<Rightarrow> jsstring" where
  "requiredMessage PostTitle = js ''Post title is required''"
| "requiredMessage PostContent = js ''Post content is required''"
| "requiredMessage Comment = js ''Comment is required''"

definition allFields :: "field_key list" where
  "allFields = [PostTitle, PostContent, Comment]"

text \<open>\<open>fieldsToValidate || [...]\<close>: an array, even an empty one, is truthy.\<close>

fun targetFields :: "field_key list option \<Rightarrow> field_key list" where
  "targetFields None = allFields"
| "targetFields (Some fs) = fs"

text \<open>The body of the \<open>forEach\<close>, on the \<open>formData\<close> of the current render.\<close>

definition checkField :: "FormData \<Rightarrow> FormErrors \<Rightarrow> field_key \<Rightarrow> FormErrors" where
  "checkField d newErrors field =
     (if trim (getField d field) = [] then newErrors(field \<mapsto> requiredMessage field)
      else newErrors)"

definition collectErrors :: "FormData \<Rightarrow> field_key list \<Rightarrow> FormErrors" where
  "collectErrors d fs = foldl (checkField d) (\<lambda>_. None) fs"

definition objectKeys :: "FormErrors \<Rightarrow> field_key list" where
  "objectKeys m = filter (\<lambda>k. m k \<noteq> None) allFields"

text \<open>\<open>{ ...prev, ...newErrors }\<close>: the entries of \<open>newErrors\<close> win.\<close>

definition spread :: "FormErrors \<Rightarrow> FormErrors \<Rightarrow> FormErrors" where
  "spread prev newErrors = (\<lambda>k. case newErrors k of Some m \<Rightarrow> Some m | None \<Rightarrow> prev k)"

definition validateForm :: "field_key list option \<Rightarrow> component \<Rightarrow> component \<times> bool" where
  "validateForm fieldsToValidate st =
     (let newErrors = collectErrors (formData st) (targetFields fieldsToValidate)
      in (st\<lparr>errors := spread (errors st) newErrors\<rparr>, length (objectKeys newErrors) = 0))"

section \<open>Handlers\<close>

definition handleInputChange :: "field_key \<Rightarrow> jsstring \<Rightarrow> component \<Rightarrow> component" where
  "handleInputChange field v st =
     (let st1 = st\<lparr>formData := setField (formData st) field v\<rparr>
      in if truthy (errors st field) then st1\<lparr>errors := (errors st1)(field := None)\<rparr>
         else st1)"

definition handleCreatePost :: "component \<Rightarrow> component" where
  "handleCreatePost st =
     (case validateForm (Some [PostTitle, PostContent]) st of
        (st1, ok) \<Rightarrow>
          if \<not> ok then st1
          else st1\<lparr>isSubmitting := True,
                   timers := timers st1 @ [\<lparr>callback = CreatePostDone (formData st), delay = 500\<rparr>]\<rparr>)"

definition handleAddComment :: "component \<Rightarrow> component" where
  "handleAddComment st =
     (case validateForm (Some [Comment]) st of
        (st1, ok) \<Rightarrow>
          if \<not> ok then st1
          else st1\<lparr>isSubmitting := True,
                   timers := timers st1 @ [\<lparr>callback = AddCommentDone (formData st), delay = 500\<rparr>]\<rparr>)"

text \<open>
  A timer callback runs with the time of day \<open>now\<close> that \<open>new Date().toISOString()\<close>
  gives it. The log reads the captured \<open>formData\<close>; the reset is a functional update
  of the state at that moment.
\<close>

fun runCallback :: "callback \<Rightarrow> jsstring \<Rightarrow> component \<Rightarrow> component" where
  "runCallback (CreatePostDone d) now st =
     st\<lparr>console := console st @ [CreatingPost (postTitle d) (postContent d) now],
        formData := (formData st)\<lparr>postTitle := [], postContent := []\<rparr>,
        isSubmitting := False\<rparr>"
| "runCallback (AddCommentDone d) now st =
     st\<lparr>console := console st @ [AddingComment (comment d) now],
        formData := (formData st)\<lparr>comment := []\<rparr>,
        isSubmitting := False\<rparr>"

text \<open>
  All timers carry the same delay, so they fire in the order they were scheduled:
  the one that fires is the oldest.
\<close>

definition fireTimer :: "jsstring \<Rightarrow> component \<Rightarrow> component" where
  "fireTimer now st =
     (case timers st of
        [] \<Rightarrow> st
      | t # ts \<Rightarrow> runCallback (callback t) now (st\<lparr>timers := ts\<rparr>))"

section \<open>Events of the component\<close>

text \<open>
  The component changes state on four occasions: a change event of one of the three
  text controls, a submit event of either form, and the firing of a timer. React
  renders again between two of them, so each handler reads the current state.
\<close>

datatype event =
  Change field_key jsstring
| SubmitPost
| SubmitComment
| TimerFires jsstring

fun step :: "event \<Rightarrow> component \<Rightarrow> component" where
  "step (Change k v) st = handleInputChange k v st"
| "step SubmitPost st = handleCreatePost st"
| "step SubmitComment st = handleAddComment st"
| "step (TimerFires now) st = fireTimer now st"

fun run :: "component \<Rightarrow> event list \<Rightarrow> component" where
  "run st [] = st"
| "run st (e # es) = run (step e st) es"

text \<open>
  The rendered page: every input, textarea and submit button carries
  \<open>disabled={isSubmitting}\<close>, so the browser delivers change and submit events only
  while the flag is false. A timer can fire only when one is scheduled.
\<close>

fun enabled :: "component \<Rightarrow> event \<Rightarrow> bool" where
  "enabled st (TimerFires now) = (timers st \<noteq> [])"
| "enabled st (Change k v) = (\<not> isSubmitting st)"
| "enabled st SubmitPost = (\<not> isSubmitting st)"
| "enabled st SubmitComment = (\<not> isSubmitting st)"

fun run_ui :: "component \<Rightarrow> event list \<Rightarrow> component option" where
  "run_ui st [] = Some st"
| "run_ui st (e # es) = (if enabled st e then run_ui (step e st) es else None)"

section \<open>What has happened to a field\<close>

text \<open>
  The specification speaks of a field that "was last validated and found empty" and of
  an edit since then. Neither is stored by the component; both are read off the
  sequence of events: \<open>foundEmpty h k\<close> is the verdict of the most recent validation
  pass that targeted \<open>k\<close> (false when there was none), \<open>editedSince h k\<close> says that a
  change event for \<open>k\<close> came after it.
\<close>

record history =
  foundEmpty :: "field_key \<Rightarrow> bool"
  editedSince :: "field_key \<Rightarrow> bool"

definition noHistory :: history where
  "noHistory = \<lparr>foundEmpty = (\<lambda>_. False), editedSince = (\<lambda>_. False)\<rparr>"

definition noteValidation :: "FormData \<Rightarrow> field_key list \<Rightarrow> history \<Rightarrow> history" where
  "noteValidation d fs h =
     \<lparr>foundEmpty = (\<lambda>k. if k \<in> set fs then trim (getField d k) = [] else foundEmpty h k),
      editedSince = (\<lambda>k. if k \<in> set fs then False else editedSince h k)\<rparr>"

fun observe :: "event \<Rightarrow> component \<Rightarrow> history \<Rightarrow> history" where
  "observe (Change k v) st h = h\<lparr>editedSince := (editedSince h)(k := True)\<rparr>"
| "observe SubmitPost st h = noteValidation (formData st) [PostTitle, PostContent] h"
| "observe SubmitComment st h = noteValidation (formData st) [Comment] h"
| "observe (TimerFires now) st h = h"

fun history_of :: "component \<Rightarrow> history \<Rightarrow> event list \<Rightarrow> history" where
  "history_of st h [] = h"
| "history_of st h (e # es) = history_of (step e st) (observe e st h) es"

section \<open>Sample states\<close>

definition helloWorld :: component where
  "helloWorld = run init [Change PostTitle (js ''Hello''), Change PostContent (js ''World'')]"

definition nicePost :: component where
  "nicePost = run init [Change Comment (js ''Nice post!'')]"

definition helloNice :: component where
  "helloNice = run init [Change PostTitle (js ''Hello''), Change Comment (js ''Nice post!'')]"

definition filled :: component where
  "filled = run init [Change PostTitle (js ''Hello''), Change PostContent (js ''World''),
                      Change Comment (js ''Nice post!'')]"

definition pendingPost :: component where
  "pendingPost = run filled [SubmitPost]"

section \<open>Invariants\<close>

text \<open>
  An error entry is the fixed message of its field, it is there exactly when the last
  validation pass over the field found it empty and no change event came since, and
  the field is then still empty after trimming.
\<close>

definition tracked :: "component \<Rightarrow> history \<Rightarrow> bool" where
  "tracked st h \<longleftrightarrow>
     (\<forall>k. errors st k = (if foundEmpty h k \<and> \<not> editedSince h k
                          then Some (requiredMessage k) else None) \<and>
          (foundEmpty h k \<and> \<not> editedSince h k \<longrightarrow> trim (getField (formData st) k) = []))"

text \<open>At most one timer is scheduled, and the flag is up exactly while one is.\<close>

definition single_flight :: "component \<Rightarrow> bool" where
  "single_flight st \<longleftrightarrow> length (timers st) \<le> 1 \<and> (isSubmitting st \<longleftrightarrow> timers st \<noteq> [])"

section \<open>Lemmas on trimming and validation\<close>

lemma trim_empty_iff: "trim s = [] \<longleftrightarrow> (\<forall>c \<in> set s. isWhiteSpace c)"
proof
  assume "trim s = []"
  then have "\<forall>c \<in> set (dropWhile isWhiteSpace s). isWhiteSpace c"
    by (simp add: trim_def)
  then have "dropWhile isWhiteSpace s = []"
    using hd_dropWhile [of isWhiteSpace s] hd_in_set by blast
  then show "\<forall>c \<in> set s. isWhiteSpace c"
    by simp
next
  assume "\<forall>c \<in> set s. isWhiteSpace c"
  then have "dropWhile isWhiteSpace s = []"
    by simp
  then show "trim s = []"
    by (simp only: trim_def rev.simps dropWhile.simps)
qed

lemma collectErrors_foldl:
  "foldl (checkField d) acc fs k =
     (if k \<in> set fs \<and> trim (getField d k) = [] then Some (requiredMessage k) else acc k)"
  by (induction fs arbitrary: acc) (auto simp: checkField_def)

lemma collectErrors_apply:
  "collectErrors d fs k =
     (if k \<in> set fs \<and> trim (getField d k) = [] then Some (requiredMessage k) else None)"
  by (simp add: collectErrors_def collectErrors_foldl)

lemma field_key_cases: "(\<forall>k. P k) \<longleftrightarrow> P PostTitle \<and> P PostContent \<and> P Comment"
  by (metis field_key.exhaust)

lemma objectKeys_empty_iff: "objectKeys m = [] \<longleftrightarrow> (\<forall>k. m k = None)"
  by (simp add: objectKeys_def allFields_def field_key_cases filter_empty_conv)

lemma validateForm_result:
  "snd (validateForm fs st) \<longleftrightarrow>
     (\<forall>k \<in> set (targetFields fs). trim (getField (formData st) k) \<noteq> [])"
  by (auto simp: validateForm_def Let_def objectKeys_empty_iff collectErrors_apply)

lemma validateForm_errors:
  "errors (fst (validateForm fs st)) k =
     (if k \<in> set (targetFields fs) \<and> trim (getField (formData st) k) = []
      then Some (requiredMessage k) else errors st k)"
  by (simp add: validateForm_def Let_def spread_def collectErrors_apply)

lemma validateForm_frame:
  "formData (fst (validateForm fs st)) = formData st"
  "isSubmitting (fst (validateForm fs st)) = isSubmitting st"
  "timers (fst (validateForm fs st)) = timers st"
  "console (fst (validateForm fs st)) = console st"
  by (simp_all add: validateForm_def Let_def)

section \<open>The handlers in closed form\<close>

lemma requiredMessage_nonempty: "requiredMessage k \<noteq> []"
  by (cases k) (simp_all add: js_def)

lemma validateForm_eq:
  "validateForm fs st =
     (st\<lparr>errors := (\<lambda>k. if k \<in> set (targetFields fs) \<and> trim (getField (formData st) k) = []
                          then Some (requiredMessage k) else errors st k)\<rparr>,
      \<forall>k \<in> set (targetFields fs). trim (getField (formData st) k) \<noteq> [])"
proof -
  have "fst (validateForm fs st) = st\<lparr>errors := (\<lambda>k. if k \<in> set (targetFields fs) \<and> trim (getField (formData st) k) = []
                          then Some (requiredMessage k) else errors st k)\<rparr>"
    by (simp add: validateForm_def Let_def spread_def collectErrors_apply fun_eq_iff)
  then show ?thesis
    using validateForm_result [of fs st] by (simp add: prod_eq_iff)
qed

lemma handleCreatePost_eq:
  "handleCreatePost st =
     (if trim (postTitle (formData st)) \<noteq> [] \<and> trim (postContent (formData st)) \<noteq> []
      then st\<lparr>isSubmitting := True,
              timers := timers st @ [\<lparr>callback = CreatePostDone (formData st), delay = 500\<rparr>]\<rparr>
      else st\<lparr>errors := (\<lambda>k. if k \<in> {PostTitle, PostContent} \<and> trim (getField (formData st) k) = []
                           then Some (requiredMessage k) else errors st k)\<rparr>)"
  by (auto simp: handleCreatePost_def validateForm_eq fun_eq_iff intro!: component.equality)

lemma handleAddComment_eq:
  "handleAddComment st =
     (if trim (comment (formData st)) \<noteq> []
      then st\<lparr>isSubmitting := True,
              timers := timers st @ [\<lparr>callback = AddCommentDone (formData st), delay = 500\<rparr>]\<rparr>
      else st\<lparr>errors := (errors st)(Comment \<mapsto> requiredMessage Comment)\<rparr>)"
  by (auto simp: handleAddComment_def validateForm_eq fun_eq_iff intro!: component.equality)

section \<open>Lemmas on the handlers and on runs\<close>

lemma getField_setField: "getField (setField d k v) k' = (if k' = k then v else getField d k')"
  by (cases k; cases k') simp_all

lemma handleInputChange_eq:
  "handleInputChange k v st =
     st\<lparr>formData := setField (formData st) k v,
        errors := (if truthy (errors st k) then (errors st)(k := None) else errors st)\<rparr>"
  by (simp add: handleInputChange_def Let_def)

lemma trim_Nil: "trim [] = []"
  by (simp add: trim_def)

lemma fireTimer_errors: "errors (fireTimer now st) = errors st"
  by (cases "timers st"; cases "callback (hd (timers st))") (simp_all add: fireTimer_def)

lemma fireTimer_blank:
  "trim (getField (formData st) k) = [] \<Longrightarrow> trim (getField (formData (fireTimer now st)) k) = []"
  by (cases "timers st"; cases "callback (hd (timers st))"; cases k)
     (simp_all add: fireTimer_def trim_Nil)

lemma tracked_step: "tracked st h \<Longrightarrow> tracked (step e st) (observe e st h)"
proof (cases e)
  case (Change k v)
  assume "tracked st h"
  then show ?thesis
    unfolding Change tracked_def
    by (auto simp: handleInputChange_eq getField_setField requiredMessage_nonempty)
next
  case SubmitPost
  assume "tracked st h"
  then show ?thesis
    unfolding SubmitPost tracked_def
    by (auto simp: handleCreatePost_eq noteValidation_def)
next
  case SubmitComment
  assume "tracked st h"
  then show ?thesis
    unfolding SubmitComment tracked_def
    by (auto simp: handleAddComment_eq noteValidation_def)
next
  case (TimerFires now)
  assume "tracked st h"
  then show ?thesis
    unfolding TimerFires tracked_def
    by (simp add: fireTimer_errors fireTimer_blank)
qed

lemma tracked_run: "tracked st h \<Longrightarrow> tracked (run st es) (history_of st h es)"
  by (induction es arbitrary: st h) (simp_all add: tracked_step)

lemma tracked_init: "tracked init noHistory"
  by (simp add: tracked_def init_def noHistory_def)

lemma run_errors_required:
  "errors (run init es) k = None \<or> errors (run init es) k = Some (requiredMessage k)"
  using tracked_run [OF tracked_init, of es] by (simp add: tracked_def)

lemma fireTimer_single:
  "timers st = [t] \<Longrightarrow> timers (fireTimer now st) = [] \<and> \<not> isSubmitting (fireTimer now st)"
  by (cases "callback t") (simp_all add: fireTimer_def)

lemma single_flight_step:
  "single_flight st \<Longrightarrow> enabled st e \<Longrightarrow> single_flight (step e st)"
proof (cases e)
  case (Change k v)
  then show "single_flight st \<Longrightarrow> enabled st e \<Longrightarrow> ?thesis"
    by (simp add: single_flight_def handleInputChange_eq)
next
  case SubmitPost
  then show "single_flight st \<Longrightarrow> enabled st e \<Longrightarrow> ?thesis"
    by (simp add: single_flight_def handleCreatePost_eq)
next
  case SubmitComment
  then show "single_flight st \<Longrightarrow> enabled st e \<Longrightarrow> ?thesis"
    by (simp add: single_flight_def handleAddComment_eq)
next
  case (TimerFires now)
  assume "single_flight st" "enabled st e"
  then obtain t where "timers st = [t]"
    unfolding TimerFires single_flight_def by (cases "timers st") auto
  then show ?thesis
    unfolding TimerFires using fireTimer_single [of st t now] by (simp add: single_flight_def)
qed

lemma single_flight_run_ui:
  "single_flight st \<Longrightarrow> run_ui st es = Some st' \<Longrightarrow> single_flight st'"
proof (induction es arbitrary: st)
  case Nil
  then show ?case by simp
next
  case (Cons e es)
  from Cons.prems(2) have en: "enabled st e" and rest: "run_ui (step e st) es = Some st'"
    by (simp_all split: if_splits)
  from Cons.prems(1) en have "single_flight (step e st)"
    by (rule single_flight_step)
  then show ?case using rest by (rule Cons.IH)
qed

section \<open>Sample states, evaluated\<close>

lemma helloWorld_eq:
  "helloWorld = \<lparr>formData = \<lparr>postTitle = js ''Hello'', postContent = js ''World'', comment = []\<rparr>,
                  errors = (\<lambda>_. None), isSubmitting = False, timers = [], console = []\<rparr>"
  by (simp add: helloWorld_def init_def handleInputChange_eq)

lemma nicePost_eq:
  "nicePost = \<lparr>formData = \<lparr>postTitle = [], postContent = [], comment = js ''Nice post!''\<rparr>,
                errors = (\<lambda>_. None), isSubmitting = False, timers = [], console = []\<rparr>"
  by (simp add: nicePost_def init_def handleInputChange_eq)

lemma trim_Hello: "trim (js ''Hello'') \<noteq> []"
  by (simp add: trim_def js_def isWhiteSpace_def)

lemma trim_World: "trim (js ''World'') \<noteq> []"
  by (simp add: trim_def js_def isWhiteSpace_def)

lemma trim_Nice: "trim (js ''Nice post!'') \<noteq> []"
  by (simp add: trim_def js_def isWhiteSpace_def)

lemma trim_space: "trim (js '' '') = []"
  by (simp add: trim_def js_def isWhiteSpace_def)

lemma helloNice_eq:
  "helloNice = \<lparr>formData = \<lparr>postTitle = js ''Hello'', postContent = [], comment = js ''Nice post!''\<rparr>,
                 errors = (\<lambda>_. None), isSubmitting = False, timers = [], console = []\<rparr>"
  by (simp add: helloNice_def init_def handleInputChange_eq)

lemma filled_eq:
  "filled = \<lparr>formData = \<lparr>postTitle = js ''Hello'', postContent = js ''World'',
                            comment = js ''Nice post!''\<rparr>,
              errors = (\<lambda>_. None), isSubmitting = False, timers = [], console = []\<rparr>"
  by (simp add: filled_def init_def handleInputChange_eq)

lemma pendingPost_eq:
  "pendingPost = filled\<lparr>isSubmitting := True,
       timers := [\<lparr>callback = CreatePostDone (formData filled), delay = 500\<rparr>]\<rparr>"
  by (simp add: pendingPost_def handleCreatePost_eq) (simp add: filled_eq trim_Hello trim_World)

lemma js_eq_Nil: "js s = [] \<longleftrightarrow> s = []"
  by (simp add: js_def)

lemma run_append: "run st (es @ es') = run (run st es) es'"
  by (induction es arbitrary: st) simp_all

section \<open>The validation engine\<close>

text \<open>
  Claim C6. In every state and for every target subset, \<open>validateForm\<close> returns true
  if and only if every targeted field has a non-empty trimmed value. The targets are
  the array passed in, or all three fields when none is passed.
\<close>

theorem validateForm_true_iff:
  "snd (validateForm fieldsToValidate st) \<longleftrightarrow>
     (\<forall>k \<in> set (targetFields fieldsToValidate). trim (getField (formData st) k) \<noteq> [])"
  by (rule validateForm_result)

theorem validateForm_true_iff_witness:
  "trim (postTitle (formData helloWorld)) \<noteq> [] \<and>
   trim (postContent (formData helloWorld)) \<noteq> [] \<and>
   trim (comment (formData helloWorld)) = [] \<and>
   snd (validateForm (Some [PostTitle, PostContent]) helloWorld) \<and>
   \<not> snd (validateForm None helloWorld)"
proof -
  have a: "\<forall>k \<in> set (targetFields (Some [PostTitle, PostContent])).
       trim (getField (formData helloWorld) k) \<noteq> []"
    by (simp add: helloWorld_eq trim_Hello trim_World)
  have b: "\<not> (\<forall>k \<in> set (targetFields None). trim (getField (formData helloWorld) k) \<noteq> [])"
    by (simp add: helloWorld_eq allFields_def trim_Nil)
  from a have c: "snd (validateForm (Some [PostTitle, PostContent]) helloWorld)"
    by (simp only: validateForm_true_iff [where fieldsToValidate = "Some [PostTitle, PostContent]"
      and st = helloWorld])
  from b have d: "\<not> snd (validateForm None helloWorld)"
    by (simp only: validateForm_true_iff [where fieldsToValidate = None and st = helloWorld] not_False_eq_True)
  from c d show ?thesis
    by (simp add: helloWorld_eq trim_Hello trim_World trim_Nil)
qed

text \<open>
  Claim C7. \<open>validateForm\<close> merges the errors of this pass into the mapping and removes
  none: an entry that was there is still there, an entry of a field outside the target
  subset is the same as before, and in every state the component can reach (any
  sequence of events from the initial state) every entry keeps its message. In
  particular a pass over \<open>comment\<close> alone leaves the entries of \<open>postTitle\<close> and
  \<open>postContent\<close> as they were.
\<close>

theorem validateForm_keeps_errors:
  "(errors st k \<noteq> None \<longrightarrow> errors (fst (validateForm fieldsToValidate st)) k \<noteq> None) \<and>
   (k \<notin> set (targetFields fieldsToValidate) \<longrightarrow>
      errors (fst (validateForm fieldsToValidate st)) k = errors st k) \<and>
   (errors (run init es) k = Some m \<longrightarrow>
      errors (fst (validateForm fieldsToValidate (run init es))) k = Some m) \<and>
   errors (fst (validateForm (Some [Comment]) st)) PostTitle = errors st PostTitle \<and>
   errors (fst (validateForm (Some [Comment]) st)) PostContent = errors st PostContent"
  using run_errors_required [of es k] by (auto simp: validateForm_errors)

theorem validateForm_keeps_errors_witness:
  "errors (run init [SubmitPost]) PostTitle = Some (js ''Post title is required'') \<and>
   PostTitle \<notin> set (targetFields (Some [Comment])) \<and>
   errors (fst (validateForm (Some [Comment]) (run init [SubmitPost]))) PostTitle =
     Some (js ''Post title is required'') \<and>
   errors (fst (validateForm None (run init [SubmitPost]))) PostTitle =
     Some (js ''Post title is required'')"
proof -
  have a: "errors (run init [SubmitPost]) PostTitle = Some (js ''Post title is required'')"
    by (simp add: handleCreatePost_eq init_def trim_Nil)
  have b: "PostTitle \<notin> set (targetFields (Some [Comment]))"
    by simp
  from a validateForm_keeps_errors [where st = "run init [SubmitPost]" and k = PostTitle
      and fieldsToValidate = "Some [Comment]" and es = "[SubmitPost]"
      and m = "js ''Post title is required''"]
  have c: "errors (fst (validateForm (Some [Comment]) (run init [SubmitPost]))) PostTitle =
     Some (js ''Post title is required'')"
    by blast
  from a validateForm_keeps_errors [where st = "run init [SubmitPost]" and k = PostTitle
      and fieldsToValidate = None and es = "[SubmitPost]"
      and m = "js ''Post title is required''"]
  have d: "errors (fst (validateForm None (run init [SubmitPost]))) PostTitle =
     Some (js ''Post title is required'')"
    by blast
  from a b c d show ?thesis by blast
qed

text \<open>
  Claim C10. The boolean that \<open>validateForm\<close> returns depends on the values of the
  targeted fields only: two states that agree on them get the same answer, and replacing
  the error mapping does not change it. So the answer can be true while a targeted field
  carries an error recorded earlier, and that entry survives the pass.
\<close>

theorem validateForm_result_ignores_errors:
  "((\<forall>k \<in> set (targetFields fieldsToValidate).
        getField (formData sa) k = getField (formData sb) k) \<longrightarrow>
      snd (validateForm fieldsToValidate sa) = snd (validateForm fieldsToValidate sb)) \<and>
   snd (validateForm fieldsToValidate (st\<lparr>errors := e\<rparr>)) = snd (validateForm fieldsToValidate st) \<and>
   (snd (validateForm fieldsToValidate st) \<and> k \<in> set (targetFields fieldsToValidate) \<longrightarrow>
      snd (validateForm fieldsToValidate (st\<lparr>errors := (errors st)(k \<mapsto> m)\<rparr>)) \<and>
      errors (fst (validateForm fieldsToValidate (st\<lparr>errors := (errors st)(k \<mapsto> m)\<rparr>))) k = Some m)"
  by (auto simp: validateForm_result validateForm_errors)

theorem validateForm_result_ignores_errors_witness:
  "snd (validateForm (Some [PostTitle, PostContent]) helloWorld) \<and>
   PostTitle \<in> set (targetFields (Some [PostTitle, PostContent])) \<and>
   snd (validateForm (Some [PostTitle, PostContent])
          (helloWorld\<lparr>errors := (errors helloWorld)(PostTitle \<mapsto> js ''Post title is required'')\<rparr>)) \<and>
   errors (fst (validateForm (Some [PostTitle, PostContent])
          (helloWorld\<lparr>errors := (errors helloWorld)(PostTitle \<mapsto> js ''Post title is required'')\<rparr>)))
      PostTitle = Some (js ''Post title is required'')"
proof -
  have a: "snd (validateForm (Some [PostTitle, PostContent]) helloWorld)"
    by (simp add: validateForm_result helloWorld_eq trim_Hello trim_World)
  have b: "PostTitle \<in> set (targetFields (Some [PostTitle, PostContent]))"
    by simp
  from a b validateForm_result_ignores_errors [where fieldsToValidate = "Some [PostTitle, PostContent]"
      and st = helloWorld and sa = helloWorld and sb = helloWorld and e = "errors helloWorld"
      and k = PostTitle and m = "js ''Post title is required''"]
  show ?thesis by blast
qed

section \<open>The field input handler\<close>

text \<open>
  Claim C8. When a field shows an error (the entry is truthy, which is what the handler
  and the page test; in a state the component can reach that is any entry at all),
  \<open>handleInputChange\<close> on that field clears the entry, whatever the new value is, an
  empty or blank one included.
\<close>

theorem handleInputChange_clears_error:
  "(truthy (errors st k) \<longrightarrow> errors (handleInputChange k v st) k = None) \<and>
   (errors (run init es) k \<noteq> None \<longrightarrow> errors (handleInputChange k v (run init es)) k = None)"
  using run_errors_required [of es k]
  by (auto simp: handleInputChange_eq requiredMessage_nonempty)

theorem handleInputChange_clears_error_witness:
  "errors (run init [SubmitPost]) PostTitle \<noteq> None \<and>
   truthy (errors (run init [SubmitPost]) PostTitle) \<and>
   trim (js '' '') = [] \<and>
   errors (handleInputChange PostTitle (js '' '') (run init [SubmitPost])) PostTitle = None"
proof -
  have a: "errors (run init [SubmitPost]) PostTitle = Some (js ''Post title is required'')"
    by (simp add: handleCreatePost_eq init_def trim_Nil)
  have b: "truthy (errors (run init [SubmitPost]) PostTitle)"
    by (simp only: a truthy.simps) (simp add: js_def)
  from a have c: "errors (run init [SubmitPost]) PostTitle \<noteq> None"
    by simp
  from b handleInputChange_clears_error [where st = "run init [SubmitPost]" and k = PostTitle
      and v = "js '' ''" and es = "[SubmitPost]"]
  have d: "errors (handleInputChange PostTitle (js '' '') (run init [SubmitPost])) PostTitle = None"
    by blast
  from b c d trim_space show ?thesis by blast
qed

text \<open>
  Claim C9. \<open>handleInputChange\<close> writes the new value into its field and at most clears
  that field's error entry. The other fields, their error entries, \<open>isSubmitting\<close>,
  the scheduled timers and the console stay as they were.
\<close>

theorem handleInputChange_frame:
  "getField (formData (handleInputChange k v st)) k = v \<and>
   (k' \<noteq> k \<longrightarrow>
      getField (formData (handleInputChange k v st)) k' = getField (formData st) k' \<and>
      errors (handleInputChange k v st) k' = errors st k') \<and>
   (errors (handleInputChange k v st) k = errors st k \<or> errors (handleInputChange k v st) k = None) \<and>
   isSubmitting (handleInputChange k v st) = isSubmitting st \<and>
   timers (handleInputChange k v st) = timers st \<and>
   console (handleInputChange k v st) = console st"
  by (simp add: handleInputChange_eq getField_setField)

theorem handleInputChange_frame_witness:
  "PostContent \<noteq> PostTitle \<and>
   getField (formData (handleInputChange PostTitle (js ''Hello'') (run init [SubmitPost]))) PostTitle
     = js ''Hello'' \<and>
   getField (formData (handleInputChange PostTitle (js ''Hello'') (run init [SubmitPost]))) PostContent
     = getField (formData (run init [SubmitPost])) PostContent \<and>
   errors (handleInputChange PostTitle (js ''Hello'') (run init [SubmitPost])) PostContent
     = errors (run init [SubmitPost]) PostContent \<and>
   isSubmitting (handleInputChange PostTitle (js ''Hello'') (run init [SubmitPost]))
     = isSubmitting (run init [SubmitPost])"
proof -
  have a: "PostContent \<noteq> PostTitle" by simp
  from a handleInputChange_frame [where k = PostTitle and v = "js ''Hello''"
      and st = "run init [SubmitPost]" and k' = PostContent]
  show ?thesis by blast
qed

section \<open>The two submission flows\<close>

text \<open>
  Claim C4. When a required field of a sub-form is empty or holds white space only, the
  sub-form's submit handler records the fixed message of that field ("Post title is
  required", "Post content is required", "Comment is required") and returns: it does
  not touch \<open>isSubmitting\<close>, which stays false, logs nothing and schedules no timer.
  The entries after a rejected post submission are exactly the messages of the blank
  post fields on top of the entries that were there.
\<close>

theorem submit_with_blank_field:
  "((\<forall>c \<in> set (postTitle (formData st)). isWhiteSpace c) \<longrightarrow>
      errors (handleCreatePost st) PostTitle = Some (js ''Post title is required'') \<and>
      isSubmitting (handleCreatePost st) = isSubmitting st \<and>
      timers (handleCreatePost st) = timers st \<and>
      console (handleCreatePost st) = console st \<and>
      formData (handleCreatePost st) = formData st) \<and>
   ((\<forall>c \<in> set (postContent (formData st)). isWhiteSpace c) \<longrightarrow>
      errors (handleCreatePost st) PostContent = Some (js ''Post content is required'') \<and>
      isSubmitting (handleCreatePost st) = isSubmitting st \<and>
      timers (handleCreatePost st) = timers st \<and>
      console (handleCreatePost st) = console st \<and>
      formData (handleCreatePost st) = formData st) \<and>
   ((\<forall>c \<in> set (comment (formData st)). isWhiteSpace c) \<longrightarrow>
      errors (handleAddComment st) Comment = Some (js ''Comment is required'') \<and>
      isSubmitting (handleAddComment st) = isSubmitting st \<and>
      timers (handleAddComment st) = timers st \<and>
      console (handleAddComment st) = console st \<and>
      formData (handleAddComment st) = formData st) \<and>
   (trim (postTitle (formData st)) = [] \<or> trim (postContent (formData st)) = [] \<longrightarrow>
      (\<forall>k. errors (handleCreatePost st) k =
         (if (k = PostTitle \<or> k = PostContent) \<and> trim (getField (formData st) k) = []
          then Some (requiredMessage k) else errors st k)))"
  by (simp add: handleCreatePost_eq handleAddComment_eq trim_empty_iff [symmetric])

theorem submit_with_blank_field_witness:
  "trim (postContent (formData (run init [Change PostTitle (js ''Hello''), Change PostContent (js '' '')])))
     = [] \<and>
   \<not> isSubmitting (run init [Change PostTitle (js ''Hello''), Change PostContent (js '' '')]) \<and>
   errors (handleCreatePost (run init [Change PostTitle (js ''Hello''), Change PostContent (js '' '')]))
      PostContent = Some (js ''Post content is required'') \<and>
   errors (handleCreatePost (run init [Change PostTitle (js ''Hello''), Change PostContent (js '' '')]))
      PostTitle = None \<and>
   \<not> isSubmitting (handleCreatePost (run init [Change PostTitle (js ''Hello''), Change PostContent (js '' '')])) \<and>
   timers (handleCreatePost (run init [Change PostTitle (js ''Hello''), Change PostContent (js '' '')])) = [] \<and>
   console (handleCreatePost (run init [Change PostTitle (js ''Hello''), Change PostContent (js '' '')])) = []"
proof -
  let ?s = "run init [Change PostTitle (js ''Hello''), Change PostContent (js '' '')]"
  have s: "?s = \<lparr>formData = \<lparr>postTitle = js ''Hello'', postContent = js '' '', comment = []\<rparr>,
                 errors = (\<lambda>_. None), isSubmitting = False, timers = [], console = []\<rparr>"
    by (simp add: init_def handleInputChange_eq)
  have a: "trim (postContent (formData ?s)) = []"
    by (simp only: s) (simp add: trim_space)
  then have b: "\<forall>c \<in> set (postContent (formData ?s)). isWhiteSpace c"
    by (simp only: trim_empty_iff)
  have c: "errors ?s PostTitle = None" "\<not> isSubmitting ?s" "timers ?s = []" "console ?s = []"
     "trim (getField (formData ?s) PostTitle) \<noteq> []"
    by (simp_all only: s) (simp_all add: trim_Hello)
  note t = submit_with_blank_field [where st = ?s]
  from t b have d: "errors (handleCreatePost ?s) PostContent = Some (js ''Post content is required'')"
     "isSubmitting (handleCreatePost ?s) = isSubmitting ?s"
     "timers (handleCreatePost ?s) = timers ?s"
     "console (handleCreatePost ?s) = console ?s"
    by blast+
  from t a have "errors (handleCreatePost ?s) PostTitle =
         (if (PostTitle = PostTitle \<or> PostTitle = PostContent) \<and> trim (getField (formData ?s) PostTitle) = []
          then Some (requiredMessage PostTitle) else errors ?s PostTitle)"
    by blast
  with c have e: "errors (handleCreatePost ?s) PostTitle = None"
    by simp
  from a c d e show ?thesis
    by simp
qed

text \<open>
  Claim C2. When title and content both trim to a non-empty string, \<open>handleCreatePost\<close>
  raises \<open>isSubmitting\<close> and schedules one completion with a delay of 500 ms, changing
  nothing else. When that completion runs, in whatever state \<open>s\<close> the component is
  then, it logs one entry with the title and content of the submission and the time of
  day, empties \<open>postTitle\<close> and \<open>postContent\<close>, leaves \<open>comment\<close> alone and lowers
  \<open>isSubmitting\<close>. With nothing else scheduled, the timer that fires next is this one.
\<close>

theorem handleCreatePost_success:
  assumes "trim (postTitle (formData st)) \<noteq> []" and "trim (postContent (formData st)) \<noteq> []"
  shows "handleCreatePost st =
           st\<lparr>isSubmitting := True,
              timers := timers st @ [\<lparr>callback = CreatePostDone (formData st), delay = 500\<rparr>]\<rparr> \<and>
         runCallback (CreatePostDone (formData st)) now s =
           s\<lparr>console := console s @
                 [CreatingPost (postTitle (formData st)) (postContent (formData st)) now],
             formData := \<lparr>postTitle = [], postContent = [], comment = comment (formData s)\<rparr>,
             isSubmitting := False\<rparr> \<and>
         (timers st = [] \<longrightarrow>
            fireTimer now (handleCreatePost st) =
              st\<lparr>console := console st @
                    [CreatingPost (postTitle (formData st)) (postContent (formData st)) now],
                 formData := \<lparr>postTitle = [], postContent = [], comment = comment (formData st)\<rparr>,
                 isSubmitting := False\<rparr>)"
  using assms by (simp add: handleCreatePost_eq fireTimer_def)

theorem handleCreatePost_success_witness:
  "trim (postTitle (formData helloWorld)) \<noteq> [] \<and>
   trim (postContent (formData helloWorld)) \<noteq> [] \<and>
   timers helloWorld = [] \<and>
   isSubmitting (handleCreatePost helloWorld) \<and>
   run helloWorld [SubmitPost, TimerFires (js ''2024-01-01T00:00:00.500Z'')] =
     \<lparr>formData = \<lparr>postTitle = [], postContent = [], comment = []\<rparr>,
      errors = (\<lambda>_. None), isSubmitting = False, timers = [],
      console = [CreatingPost (js ''Hello'') (js ''World'') (js ''2024-01-01T00:00:00.500Z'')]\<rparr>"
proof -
  have a: "trim (postTitle (formData helloWorld)) \<noteq> []"
    and b: "trim (postContent (formData helloWorld)) \<noteq> []"
    and c: "timers helloWorld = []"
    by (simp_all add: helloWorld_eq trim_Hello trim_World)
  note t = handleCreatePost_success [OF a b, where now = "js ''2024-01-01T00:00:00.500Z''" and s = helloWorld]
  from t have d: "handleCreatePost helloWorld =
           helloWorld\<lparr>isSubmitting := True,
              timers := timers helloWorld @ [\<lparr>callback = CreatePostDone (formData helloWorld), delay = 500\<rparr>]\<rparr>"
    by blast
  have e: "isSubmitting (handleCreatePost helloWorld)"
    by (simp only: d) simp
  from t c have "fireTimer (js ''2024-01-01T00:00:00.500Z'') (handleCreatePost helloWorld) =
              helloWorld\<lparr>console := console helloWorld @
                    [CreatingPost (postTitle (formData helloWorld)) (postContent (formData helloWorld))
                       (js ''2024-01-01T00:00:00.500Z'')],
                 formData := \<lparr>postTitle = [], postContent = [], comment = comment (formData helloWorld)\<rparr>,
                 isSubmitting := False\<rparr>"
    by blast
  then have f: "run helloWorld [SubmitPost, TimerFires (js ''2024-01-01T00:00:00.500Z'')] =
     \<lparr>formData = \<lparr>postTitle = [], postContent = [], comment = []\<rparr>,
      errors = (\<lambda>_. None), isSubmitting = False, timers = [],
      console = [CreatingPost (js ''Hello'') (js ''World'') (js ''2024-01-01T00:00:00.500Z'')]\<rparr>"
    by (simp add: helloWorld_eq)
  from a b c e f show ?thesis by blast
qed

text \<open>
  Claim C3. When the comment trims to a non-empty string, \<open>handleAddComment\<close> raises
  \<open>isSubmitting\<close> and schedules one completion with the same delay. When it runs it
  logs one entry with the comment of the submission and the time of day, empties
  \<open>comment\<close>, leaves \<open>postTitle\<close> and \<open>postContent\<close> alone and lowers \<open>isSubmitting\<close>.
\<close>

theorem handleAddComment_success:
  assumes "trim (comment (formData st)) \<noteq> []"
  shows "handleAddComment st =
           st\<lparr>isSubmitting := True,
              timers := timers st @ [\<lparr>callback = AddCommentDone (formData st), delay = 500\<rparr>]\<rparr> \<and>
         runCallback (AddCommentDone (formData st)) now s =
           s\<lparr>console := console s @ [AddingComment (comment (formData st)) now],
             formData := \<lparr>postTitle = postTitle (formData s), postContent = postContent (formData s),
                           comment = []\<rparr>,
             isSubmitting := False\<rparr> \<and>
         (timers st = [] \<longrightarrow>
            fireTimer now (handleAddComment st) =
              st\<lparr>console := console st @ [AddingComment (comment (formData st)) now],
                 formData := \<lparr>postTitle = postTitle (formData st),
                               postContent = postContent (formData st), comment = []\<rparr>,
                 isSubmitting := False\<rparr>)"
  using assms by (simp add: handleAddComment_eq fireTimer_def)

theorem handleAddComment_success_witness:
  "trim (comment (formData helloNice)) \<noteq> [] \<and>
   timers helloNice = [] \<and>
   isSubmitting (handleAddComment helloNice) \<and>
   run helloNice [SubmitComment, TimerFires (js ''2024-01-01T00:00:00.500Z'')] =
     \<lparr>formData = \<lparr>postTitle = js ''Hello'', postContent = [], comment = []\<rparr>,
      errors = (\<lambda>_. None), isSubmitting = False, timers = [],
      console = [AddingComment (js ''Nice post!'') (js ''2024-01-01T00:00:00.500Z'')]\<rparr>"
proof -
  have a: "trim (comment (formData helloNice)) \<noteq> []"
    and c: "timers helloNice = []"
    by (simp_all add: helloNice_eq trim_Nice)
  note t = handleAddComment_success [OF a, where now = "js ''2024-01-01T00:00:00.500Z''" and s = helloNice]
  from t have d: "handleAddComment helloNice =
           helloNice\<lparr>isSubmitting := True,
              timers := timers helloNice @ [\<lparr>callback = AddCommentDone (formData helloNice), delay = 500\<rparr>]\<rparr>"
    by blast
  have e: "isSubmitting (handleAddComment helloNice)"
    by (simp only: d) simp
  from t c have "fireTimer (js ''2024-01-01T00:00:00.500Z'') (handleAddComment helloNice) =
              helloNice\<lparr>console := console helloNice @
                    [AddingComment (comment (formData helloNice)) (js ''2024-01-01T00:00:00.500Z'')],
                 formData := \<lparr>postTitle = postTitle (formData helloNice),
                               postContent = postContent (formData helloNice), comment = []\<rparr>,
                 isSubmitting := False\<rparr>"
    by blast
  then have f: "run helloNice [SubmitComment, TimerFires (js ''2024-01-01T00:00:00.500Z'')] =
     \<lparr>formData = \<lparr>postTitle = js ''Hello'', postContent = [], comment = []\<rparr>,
      errors = (\<lambda>_. None), isSubmitting = False, timers = [],
      console = [AddingComment (js ''Nice post!'') (js ''2024-01-01T00:00:00.500Z'')]\<rparr>"
    by (simp add: helloNice_eq)
  from a c e f show ?thesis by blast
qed

section \<open>One submission in flight\<close>

text \<open>
  Claim C1 as stated fails on the handlers themselves: neither looks at \<open>isSubmitting\<close>.
  In the state reached by filling the three fields and submitting the post, the flag is
  up and one completion is scheduled; calling either handler there schedules a second.
\<close>

theorem submit_while_submitting_counterexample:
  "isSubmitting pendingPost \<and>
   length (timers pendingPost) = 1 \<and>
   length (timers (handleCreatePost pendingPost)) = 2 \<and>
   length (timers (handleAddComment pendingPost)) = 2"
  by (simp add: handleCreatePost_eq handleAddComment_eq pendingPost_eq)
     (simp add: filled_eq trim_Hello trim_World trim_Nice)

text \<open>
  Claim C1, amended. The guard is the page: every control is disabled while
  \<open>isSubmitting\<close> is true. In every state reached from the initial one by events the
  page delivers, at most one completion is scheduled, the flag is up exactly while one
  is, and while it is up a submit event of either form is not delivered.
\<close>

theorem one_completion_pending:
  assumes "run_ui init es = Some st"
  shows "length (timers st) \<le> 1 \<and> (isSubmitting st \<longleftrightarrow> timers st \<noteq> []) \<and>
         (isSubmitting st \<longrightarrow> run_ui st (SubmitPost # es') = None \<and>
                                 run_ui st (SubmitComment # es') = None)"
proof -
  have "single_flight init"
    by (simp add: single_flight_def init_def)
  then have "single_flight st"
    using assms by (rule single_flight_run_ui)
  then show ?thesis
    by (simp add: single_flight_def)
qed

theorem one_completion_pending_witness:
  "run_ui init [Change PostTitle (js ''Hello''), Change PostContent (js ''World''),
                Change Comment (js ''Nice post!''), SubmitPost] = Some pendingPost \<and>
   isSubmitting pendingPost \<and>
   length (timers pendingPost) \<le> 1 \<and>
   run_ui pendingPost [SubmitComment] = None"
proof -
  have a: "run_ui init [Change PostTitle (js ''Hello''), Change PostContent (js ''World''),
                Change Comment (js ''Nice post!''), SubmitPost] = Some pendingPost"
    by (simp add: pendingPost_def filled_def) (simp add: init_def handleInputChange_eq)
  have b: "isSubmitting pendingPost"
    by (simp add: pendingPost_eq)
  from one_completion_pending [OF a, where es' = "[]"] b
  have "length (timers pendingPost) \<le> 1" "run_ui pendingPost [SubmitComment] = None"
    by blast+
  with a b show ?thesis by blast
qed

section \<open>Error entries and the history of a field\<close>

text \<open>
  Claim C5 as stated fails. Submit the empty post form, then type one blank into the
  title: the title was last validated and found empty, yet its entry is gone, and the
  edit that cleared it left the field empty after trimming.
\<close>

theorem error_iff_last_validated_counterexample:
  "foundEmpty (history_of init noHistory [SubmitPost, Change PostTitle (js '' '')]) PostTitle \<and>
   errors (run init [SubmitPost]) PostTitle = Some (js ''Post title is required'') \<and>
   errors (run init [SubmitPost, Change PostTitle (js '' '')]) PostTitle = None \<and>
   trim (postTitle (formData (run init [SubmitPost, Change PostTitle (js '' '')]))) = [] \<and>
   run_ui init [SubmitPost, Change PostTitle (js '' '')] =
     Some (run init [SubmitPost, Change PostTitle (js '' '')])"
  by (simp add: handleCreatePost_eq handleInputChange_eq noteValidation_def)
     (simp add: init_def noHistory_def trim_Nil trim_space js_eq_Nil)

text \<open>
  Claim C5, amended. In every state the component can reach, a field has an error entry
  if and only if its most recent validation found it empty after trimming and no change
  event for it came since; the entry is then the fixed message of the field, and the
  field is still empty after trimming. Any change event for a field leaves it without
  an entry, whatever the new value.
\<close>

theorem error_iff_found_empty_and_unedited:
  "(errors (run init es) k \<noteq> None \<longleftrightarrow>
      foundEmpty (history_of init noHistory es) k \<and> \<not> editedSince (history_of init noHistory es) k) \<and>
   (errors (run init es) k \<noteq> None \<longrightarrow>
      errors (run init es) k = Some (requiredMessage k) \<and>
      trim (getField (formData (run init es)) k) = []) \<and>
   errors (run init (es @ [Change k v])) k = None"
proof -
  have t: "tracked (run init es) (history_of init noHistory es)"
    using tracked_init by (rule tracked_run)
  then have a: "errors (run init es) k =
      (if foundEmpty (history_of init noHistory es) k \<and> \<not> editedSince (history_of init noHistory es) k
       then Some (requiredMessage k) else None)"
    and b: "foundEmpty (history_of init noHistory es) k \<and> \<not> editedSince (history_of init noHistory es) k
       \<longrightarrow> trim (getField (formData (run init es)) k) = []"
    by (simp_all add: tracked_def)
  have c: "errors (run init (es @ [Change k v])) k = None"
    using a by (simp add: run_append handleInputChange_eq requiredMessage_nonempty)
  from a b c show ?thesis by simp
qed

theorem error_iff_found_empty_and_unedited_witness:
  "errors (run init [SubmitPost]) PostTitle \<noteq> None \<and>
   foundEmpty (history_of init noHistory [SubmitPost]) PostTitle \<and>
   \<not> editedSince (history_of init noHistory [SubmitPost]) PostTitle \<and>
   trim (getField (formData (run init [SubmitPost])) PostTitle) = [] \<and>
   errors (run init ([SubmitPost] @ [Change PostTitle (js ''Hello'')])) PostTitle = None"
proof -
  have a: "errors (run init [SubmitPost]) PostTitle \<noteq> None"
    by (simp add: handleCreatePost_eq init_def trim_Nil)
  from a error_iff_found_empty_and_unedited [where es = "[SubmitPost]" and k = PostTitle
      and v = "js ''Hello''"]
  show ?thesis by blast
qed

end
